theory Spec2Isabelle
  imports Main
begin

section \<open>Python strings\<close>

text \<open>
  A Python \<open>str\<close> is a sequence of Unicode code points. The adapter searches for and
  splits on markers that are not ASCII, so a string is modelled as the list of its code
  points; \<open>ustr\<close> turns an ASCII literal into such a list.
\<close>

type_synonym pystr = "nat list"

definition ustr :: "string \<Rightarrow> pystr" where
  "ustr s = map of_char s"

text \<open>\<open>sub in s\<close> for two strings: \<open>sub\<close> occurs in \<open>s\<close> as a contiguous block.\<close>

fun starts_with :: "pystr \<Rightarrow> pystr \<Rightarrow> bool" where
  "starts_with [] s = True"
| "starts_with (p # ps) [] = False"
| "starts_with (p # ps) (c # cs) = (p = c \<and> starts_with ps cs)"

fun is_substr :: "pystr \<Rightarrow> pystr \<Rightarrow> bool" where
  "is_substr sub [] = (sub = [])"
| "is_substr sub (c # cs) = (starts_with sub (c # cs) \<or> is_substr sub cs)"

text \<open>
  \<open>s.split(sep)\<close> scans from the left and cuts at every occurrence of \<open>sep\<close> that does
  not overlap the previous one; \<open>acc\<close> holds the current piece reversed. The source only
  splits on separators that are constants of at least one character.
\<close>

fun split_aux :: "pystr \<Rightarrow> pystr \<Rightarrow> pystr \<Rightarrow> pystr list" where
  "split_aux sep acc [] = [rev acc]"
| "split_aux sep acc (c # cs) =
     (if starts_with sep (c # cs)
      then rev acc # split_aux sep [] (drop (length sep - 1) cs)
      else split_aux sep (c # acc) cs)"

definition py_split :: "pystr \<Rightarrow> pystr \<Rightarrow> pystr list" where
  "py_split sep s = split_aux sep [] s"

text \<open>\<open>s.split(sep, 1)\<close> cuts at the first occurrence only.\<close>

fun split1_aux :: "pystr \<Rightarrow> pystr \<Rightarrow> pystr \<Rightarrow> pystr list" where
  "split1_aux sep acc [] = [rev acc]"
| "split1_aux sep acc (c # cs) =
     (if starts_with sep (c # cs)
      then [rev acc, drop (length sep - 1) cs]
      else split1_aux sep (c # acc) cs)"

definition py_split1 :: "pystr \<Rightarrow> pystr \<Rightarrow> pystr list" where
  "py_split1 sep s = split1_aux sep [] s"

text \<open>
  \<open>s.strip()\<close> removes the code points for which \<open>str.isspace\<close> holds from both ends.
\<close>

definition is_space :: "nat \<Rightarrow> bool" where
  "is_space c \<longleftrightarrow>
     (9 \<le> c \<and> c \<le> 13) \<or> (28 \<le> c \<and> c \<le> 32) \<or> c = 133 \<or> c = 160 \<or> c = 5760 \<or>
     (8192 \<le> c \<and> c \<le> 8202) \<or> c = 8232 \<or> c = 8233 \<or> c = 8239 \<or> c = 8287 \<or> c = 12288"

definition py_strip :: "pystr \<Rightarrow> pystr" where
  "py_strip s = rev (dropWhile is_space (rev (dropWhile is_space s)))"

section \<open>Exceptions and decoded JSON values\<close>

datatype exn =
    AttributeError
  | TypeError
  | IndexError
  | UnboundLocalError
  | ValueError pystr
  | FileNotFoundError pystr
  | KeyError
  | JSONDecodeError
  | ValidationError
  | ConnectionError pystr

definition ebind :: "exn + 'a \<Rightarrow> ('a \<Rightarrow> exn + 'b) \<Rightarrow> exn + 'b" where
  "ebind m f = (case m of Inl e \<Rightarrow> Inl e | Inr x \<Rightarrow> f x)"

text \<open>
  What \<open>json.loads\<close> and \<open>resp.json()\<close> hand to the code: \<open>None\<close>, booleans, integers,
  strings, lists and dicts. A dict is an association list read with \<open>map_of\<close>.
  Floating-point numbers are left out of the model.
\<close>

datatype json =
    JNull
  | JBool bool
  | JInt int
  | JStr pystr
  | JArr "json list"
  | JObj "(pystr \<times> json) list"

text \<open>\<open>d.get(k, default)\<close>: only a dict has the method.\<close>

fun py_get :: "json \<Rightarrow> pystr \<Rightarrow> json \<Rightarrow> exn + json" where
  "py_get (JObj kv) k d = Inr (case map_of kv k of Some v \<Rightarrow> v | None \<Rightarrow> d)"
| "py_get _ k d = Inl AttributeError"

text \<open>
  \<open>sub in x\<close> with a string on the left: substring test on a string, membership in a
  list, key test on a dict, \<open>TypeError\<close> on anything else.
\<close>

fun py_in :: "pystr \<Rightarrow> json \<Rightarrow> exn + bool" where
  "py_in sub (JStr s) = Inr (is_substr sub s)"
| "py_in sub (JArr xs) = Inr (JStr sub \<in> set xs)"
| "py_in sub (JObj kv) = Inr (map_of kv sub \<noteq> None)"
| "py_in sub _ = Inl TypeError"

text \<open>\<open>x.split(sep)\<close>, \<open>x.split(sep, 1)\<close>: only a string has the method.\<close>

fun py_split_j :: "json \<Rightarrow> pystr \<Rightarrow> exn + pystr list" where
  "py_split_j (JStr s) sep = Inr (py_split sep s)"
| "py_split_j _ sep = Inl AttributeError"

fun py_split1_j :: "json \<Rightarrow> pystr \<Rightarrow> exn + pystr list" where
  "py_split1_j (JStr s) sep = Inr (py_split1 sep s)"
| "py_split1_j _ sep = Inl AttributeError"

text \<open>\<open>xs[i]\<close> for \<open>i \<ge> 0\<close>, and the unpacking \<open>a, b = xs\<close>.\<close>

definition py_index :: "'a list \<Rightarrow> nat \<Rightarrow> exn + 'a" where
  "py_index xs i = (if i < length xs then Inr (xs ! i) else Inl IndexError)"

fun unpack2 :: "pystr list \<Rightarrow> exn + (pystr \<times> pystr)" where
  "unpack2 [a, b] = Inr (a, b)"
| "unpack2 _ = Inl (ValueError [])"

text \<open>\<open>x == n\<close> for an integer constant \<open>n\<close>: \<open>True == 1\<close> and \<open>False == 0\<close> hold in Python.\<close>

fun py_eq_int :: "json \<Rightarrow> int \<Rightarrow> bool" where
  "py_eq_int (JInt i) n = (i = n)"
| "py_eq_int (JBool b) n = ((if b then 1 else 0) = n)"
| "py_eq_int _ n = False"

section \<open>Message normalization: \<open>WechatPlatformAdapter.convert_message\<close>\<close>

datatype message_type = GROUP_MESSAGE | FRIEND_MESSAGE

record message_member =
  user_id :: json
  nickname :: pystr

text \<open>
  The message component \<open>Plain\<close> of the host framework declares its \<open>text\<close> as a string
  field and validates what its constructor is given: a string is kept, an integer or a
  boolean is replaced by its \<open>str\<close>, and \<open>None\<close>, a list or a dict is refused with a
  validation error.
\<close>

datatype component = Plain pystr

fun digits :: "nat \<Rightarrow> pystr" where
  "digits n = (if n < 10 then [48 + n] else digits (n div 10) @ [48 + n mod 10])"

declare digits.simps [simp del]

definition py_str_int :: "int \<Rightarrow> pystr" where
  "py_str_int i = (if i < 0 then 45 # digits (nat (- i)) else digits (nat i))"

fun mk_plain :: "json \<Rightarrow> exn + component" where
  "mk_plain (JStr s) = Inr (Plain s)"
| "mk_plain (JInt i) = Inr (Plain (py_str_int i))"
| "mk_plain (JBool b) = Inr (Plain (ustr (if b then ''True'' else ''False'')))"
| "mk_plain _ = Inl ValidationError"

text \<open>
  \<open>AstrBotMessage\<close> as \<open>convert_message\<close> fills it. \<open>group_id\<close> is set for group
  messages only. The display string \<open>message_str\<close>, formatted from the nickname and
  the content, is not part of the model; formatting it cannot raise.
\<close>

record astrbot_message =
  abm_type :: message_type
  self_id :: pystr
  message_id :: json
  timestamp :: json
  sender :: message_member
  message :: "component list"
  session_id :: json
  group_id :: "json option"
  raw_message :: "json option"

definition at_marker :: pystr where
  "at_marker = [22312, 32676, 32842, 20013, 64, 20102, 20320]"

definition chatroom_marker :: pystr where
  "chatroom_marker = ustr ''@chatroom''"

definition colon :: pystr where
  "colon = [58]"

definition colon_nl :: pystr where
  "colon_nl = [58, 10]"

text \<open>
  The three extraction rules of the group branch (lines 153 to 164). \<open>Inr None\<close> means
  that no rule matched, so that \<open>nickname\<close> and \<open>actual_content\<close> are unbound.
\<close>

definition group_extract :: "json \<Rightarrow> json \<Rightarrow> exn + (pystr \<times> pystr) option" where
  "group_extract push_content raw_content =
     ebind (py_in at_marker push_content) (\<lambda>mentioned.
       if mentioned then
         ebind (py_split_j push_content at_marker) (\<lambda>ps.
         ebind (py_index ps 0) (\<lambda>n.
         ebind (py_split_j raw_content colon_nl) (\<lambda>rs.
         ebind (py_index rs 1) (\<lambda>actual_content.
           Inr (Some (py_strip n, actual_content))))))
       else
         ebind (py_in colon push_content) (\<lambda>has_colon.
           if has_colon then
             ebind (py_split1_j push_content colon) (\<lambda>ps.
             ebind (unpack2 ps) (\<lambda>(n, actual_content).
               Inr (Some (py_strip n, actual_content))))
           else
             ebind (py_in colon_nl raw_content) (\<lambda>has_nl.
               if has_nl then
                 ebind (py_split1_j raw_content colon_nl) (\<lambda>rs.
                 ebind (unpack2 rs) (\<lambda>(n, actual_content).
                   Inr (Some (py_strip n, actual_content))))
               else Inr None)))"

text \<open>
  The body of the \<open>try\<close> block. \<open>Inr None\<close> is the early \<open>return None\<close> of the
  self-echo check; \<open>now\<close> is \<open>int(time.time())\<close>.
\<close>

definition convert_body :: "pystr \<Rightarrow> int \<Rightarrow> json \<Rightarrow> exn + astrbot_message option" where
  "convert_body wxid now data =
     ebind (py_get data (ustr ''from_user_name'') (JObj [])) (\<lambda>fu.
     ebind (py_get fu (ustr ''str'') (JStr [])) (\<lambda>from_user.
     ebind (py_in chatroom_marker from_user) (\<lambda>is_group.
     ebind (py_get data (ustr ''msg_id'') (JStr [])) (\<lambda>mid.
     ebind (py_get data (ustr ''create_time'') (JInt now)) (\<lambda>ts.
       if is_group then
         ebind (py_get data (ustr ''push_content'') (JObj [])) (\<lambda>push_content.
         ebind (py_get data (ustr ''content'') (JObj [])) (\<lambda>c.
         ebind (py_get c (ustr ''str'') (JStr [])) (\<lambda>raw_content.
         ebind (group_extract push_content raw_content) (\<lambda>ex.
           case ex of
             None \<Rightarrow> Inl UnboundLocalError
           | Some (n, actual_content) \<Rightarrow>
               ebind (py_split_j raw_content colon_nl) (\<lambda>rs.
               ebind (py_index rs 0) (\<lambda>uid.
               ebind (mk_plain (JStr actual_content)) (\<lambda>plain.
                 Inr (Some \<lparr>abm_type = GROUP_MESSAGE, self_id = wxid, message_id = mid,
                            timestamp = ts,
                            sender = \<lparr>user_id = JStr uid, nickname = py_strip n\<rparr>,
                            message = [plain],
                            session_id = from_user, group_id = Some from_user,
                            raw_message = None\<rparr>))))))))
       else if from_user = JStr wxid then Inr None
       else
         ebind (py_get data (ustr ''push_content'') (JStr [])) (\<lambda>push_content.
         ebind (py_split_j push_content colon) (\<lambda>ps.
         ebind (py_index ps 0) (\<lambda>n.
         ebind (py_get data (ustr ''content'') (JObj [])) (\<lambda>c.
         ebind (py_get c (ustr ''str'') (JStr [])) (\<lambda>content.
         ebind (mk_plain content) (\<lambda>plain.
           Inr (Some \<lparr>abm_type = FRIEND_MESSAGE, self_id = wxid, message_id = mid,
                      timestamp = ts,
                      sender = \<lparr>user_id = from_user, nickname = py_strip n\<rparr>,
                      message = [plain],
                      session_id = from_user, group_id = None,
                      raw_message = None\<rparr>))))))))))))"

datatype log_entry =
    LogDebugConverted astrbot_message
  | LogErrorConvert exn json

text \<open>
  \<open>convert_message\<close>: the \<open>try\<close> block, its \<open>except Exception\<close> handler, which logs
  the exception with the frame and returns \<open>None\<close>, and the last two statements of the
  block, which store the frame and return the message unless its component list is
  empty. The result is paired with what was logged.
\<close>

definition convert_message ::
  "pystr \<Rightarrow> int \<Rightarrow> json \<Rightarrow> astrbot_message option \<times> log_entry list" where
  "convert_message wxid now data =
     (case convert_body wxid now data of
        Inl e \<Rightarrow> (None, [LogErrorConvert e data])
      | Inr None \<Rightarrow> (None, [])
      | Inr (Some abm) \<Rightarrow>
          (if message abm \<noteq> [] then Some (abm\<lparr>raw_message := Some data\<rparr>) else None,
           [LogDebugConverted abm]))"

text \<open>Frames used to run the normalizer on concrete input.\<close>

definition mk_frame :: "pystr \<Rightarrow> pystr \<Rightarrow> pystr \<Rightarrow> json" where
  "mk_frame from_user push raw =
     JObj [(ustr ''msg_type'', JInt 1),
           (ustr ''from_user_name'', JObj [(ustr ''str'', JStr from_user)]),
           (ustr ''push_content'', JStr push),
           (ustr ''content'', JObj [(ustr ''str'', JStr raw)]),
           (ustr ''msg_id'', JInt 7),
           (ustr ''create_time'', JInt 1700000000)]"

definition frame_carol :: json where
  "frame_carol = mk_frame (ustr ''carol_id'') (ustr ''Carol: yo'') (ustr ''yo'')"

definition frame_carol_spaced :: json where
  "frame_carol_spaced = mk_frame (ustr ''carol_id'') (ustr '' Carol : yo'') (ustr ''yo'')"

definition frame_self :: json where
  "frame_self = mk_frame (ustr ''bot_id'') (ustr ''Me: hi'') (ustr ''hi'')"

definition frame_bob :: json where
  "frame_bob = mk_frame (ustr ''42@chatroom'') (ustr ''Bob: hi there'') (ustr ''hi there'')"

definition frame_nomatch :: json where
  "frame_nomatch = mk_frame (ustr ''42@chatroom'') (ustr ''hello'') (ustr ''hi'')"

definition frame_alice :: json where
  "frame_alice = mk_frame (ustr ''42@chatroom'') (ustr ''Alice'' @ at_marker)
                   (ustr ''alice_id'' @ colon_nl @ ustr ''hello'')"

definition frame_alice_two :: json where
  "frame_alice_two = mk_frame (ustr ''42@chatroom'') (ustr ''Alice'' @ at_marker)
                   (ustr ''alice_id'' @ colon_nl @ ustr ''line1'' @ colon_nl @ ustr ''line2'')"

definition frame_null_content :: json where
  "frame_null_content =
     JObj [(ustr ''from_user_name'', JObj [(ustr ''str'', JStr (ustr ''carol_id''))]),
           (ustr ''push_content'', JStr (ustr ''Carol: yo'')),
           (ustr ''content'', JObj [(ustr ''str'', JNull)])]"

definition frame_int_content :: json where
  "frame_int_content =
     JObj [(ustr ''from_user_name'', JObj [(ustr ''str'', JStr (ustr ''carol_id''))]),
           (ustr ''push_content'', JStr (ustr ''Carol: yo'')),
           (ustr ''content'', JObj [(ustr ''str'', JInt 5)])]"

definition abm_nickname :: "astrbot_message option \<Rightarrow> pystr option" where
  "abm_nickname r = map_option (\<lambda>m. nickname (sender m)) r"

definition abm_sender_id :: "astrbot_message option \<Rightarrow> json option" where
  "abm_sender_id r = map_option (\<lambda>m. user_id (sender m)) r"

definition abm_components :: "astrbot_message option \<Rightarrow> component list option" where
  "abm_components r = map_option message r"

section \<open>Login status: \<open>ipad855Client.check_online\<close> and \<open>check_login_status\<close>\<close>

text \<open>
  What a GET on the control API gives: the request raises, or a response arrives with a
  status and a body on which \<open>await resp.json()\<close> either raises or returns a value.
  The backend is a function from the endpoint to this outcome; the client records the
  requests it makes.
\<close>

datatype endpoint = GetLoginStatus | CheckLoginStatus

datatype http_result = Raised exn | Response int "exn + json"

record client_state =
  login_status :: bool
  requests :: "endpoint list"

text \<open>\<open>x[k]\<close> with a string key: a dict raises \<open>KeyError\<close> on a missing key, any other value
  \<open>TypeError\<close>.\<close>

fun py_getitem :: "json \<Rightarrow> pystr \<Rightarrow> exn + json" where
  "py_getitem (JObj kv) k = (case map_of kv k of Some v \<Rightarrow> Inr v | None \<Rightarrow> Inl KeyError)"
| "py_getitem _ k = Inl TypeError"

text \<open>
  The part of \<open>check_online\<close> that inspects the decoded body (lines 272 to 296); an
  exception is whatever the enclosing \<open>except\<close> clauses will turn into \<open>False\<close>.
\<close>

definition online_of_blob :: "json \<Rightarrow> exn + bool" where
  "online_of_blob json_blob =
     ebind (py_in (ustr ''Code'') json_blob) (\<lambda>has_code.
       if \<not> has_code then Inr False
       else ebind (py_getitem json_blob (ustr ''Code'')) (\<lambda>code.
         if \<not> py_eq_int code 200 then
           ebind (py_get json_blob (ustr ''Text'') JNull) (\<lambda>_. Inr False)
         else ebind (py_in (ustr ''Data'') json_blob) (\<lambda>has_data.
           if \<not> has_data then Inr False
           else ebind (py_getitem json_blob (ustr ''Data'')) (\<lambda>data.
             ebind (py_in (ustr ''loginState'') data) (\<lambda>has_state.
               if \<not> has_state then Inr False
               else ebind (py_getitem data (ustr ''loginState'')) (\<lambda>login_state.
                 if py_eq_int login_state 1 then
                   ebind (py_get data (ustr ''expiryTime'') (JStr [])) (\<lambda>_.
                   ebind (py_get data (ustr ''loginErrMsg'') (JStr [])) (\<lambda>_.
                   ebind (py_get data (ustr ''onlineTime'') (JStr [])) (\<lambda>_.
                   ebind (py_get data (ustr ''totalOnline'') (JStr [])) (\<lambda>_.
                     Inr True))))
                 else Inr False))))))"

text \<open>
  \<open>check_online\<close>: one GET on \<open>/login/GetLoginStatus\<close>. Every exception, of the
  request, of the decoding or of the inspection, is caught and gives \<open>False\<close>; a
  positive answer also sets \<open>login_status\<close>.
\<close>

definition check_online :: "(endpoint \<Rightarrow> http_result) \<Rightarrow> client_state \<Rightarrow> bool \<times> client_state" where
  "check_online backend st =
     (let st1 = st\<lparr>requests := requests st @ [GetLoginStatus]\<rparr> in
      case backend GetLoginStatus of
        Raised e \<Rightarrow> (False, st1)
      | Response status body \<Rightarrow>
          if status \<noteq> 200 then (False, st1)
          else (case body of
                  Inl e \<Rightarrow> (False, st1)
                | Inr json_blob \<Rightarrow>
                    (case online_of_blob json_blob of
                       Inr True \<Rightarrow> (True, st1\<lparr>login_status := True\<rparr>)
                     | _ \<Rightarrow> (False, st1))))"

text \<open>
  What \<open>check_login_status\<close> decides from the decoded body (lines 188 to 225):
  \<open>Fallback\<close> is the branch that asks \<open>check_online\<close>, \<open>Decided b\<close> a plain return.
\<close>

datatype verdict = Decided bool | Fallback

definition scan_verdict :: "json \<Rightarrow> exn + verdict" where
  "scan_verdict json_blob =
     ebind (py_in (ustr ''Code'') json_blob) (\<lambda>has_code.
       if \<not> has_code then Inr (Decided False)
       else ebind (py_getitem json_blob (ustr ''Code'')) (\<lambda>code.
         if \<not> py_eq_int code 200 then Inr Fallback
         else ebind (py_in (ustr ''Data'') json_blob) (\<lambda>has_data.
           if \<not> has_data then Inr (Decided False)
           else ebind (py_getitem json_blob (ustr ''Data'')) (\<lambda>data.
             ebind (py_get data (ustr ''state'') (JInt (- 1))) (\<lambda>state.
               if py_eq_int state 0 then
                 ebind (py_get data (ustr ''effective_time'') (JInt 0)) (\<lambda>_. Inr (Decided False))
               else if py_eq_int state 1 then Inr (Decided False)
               else if py_eq_int state 2 then Inr (Decided True)
               else Inr (Decided False))))))"

text \<open>
  \<open>check_login_status\<close>: one GET on \<open>/login/CheckLoginStatus\<close>. In the fallback branch
  a positive \<open>check_online\<close> returns \<open>True\<close>; otherwise the branch reads the error text
  with \<open>json_blob.get\<close> and returns \<open>False\<close>, as does every exception.
\<close>

definition check_login_status ::
  "(endpoint \<Rightarrow> http_result) \<Rightarrow> client_state \<Rightarrow> bool \<times> client_state" where
  "check_login_status backend st =
     (let st1 = st\<lparr>requests := requests st @ [CheckLoginStatus]\<rparr> in
      case backend CheckLoginStatus of
        Raised e \<Rightarrow> (False, st1)
      | Response status body \<Rightarrow>
          if status \<noteq> 200 then (False, st1)
          else (case body of
                  Inl e \<Rightarrow> (False, st1)
                | Inr json_blob \<Rightarrow>
                    (case scan_verdict json_blob of
                       Inl e \<Rightarrow> (False, st1)
                     | Inr (Decided b) \<Rightarrow> (b, st1)
                     | Inr Fallback \<Rightarrow> check_online backend st1)))"

text \<open>A backend whose device is online and whose scan endpoint reports the state \<open>s\<close>.\<close>

definition online_blob :: json where
  "online_blob = JObj [(ustr ''Code'', JInt 200),
                       (ustr ''Data'', JObj [(ustr ''loginState'', JInt 1)])]"

definition scan_blob :: "int \<Rightarrow> int \<Rightarrow> json" where
  "scan_blob code s = JObj [(ustr ''Code'', JInt code),
                            (ustr ''Data'', JObj [(ustr ''state'', JInt s)])]"

fun online_backend :: "int \<Rightarrow> int \<Rightarrow> endpoint \<Rightarrow> http_result" where
  "online_backend code s GetLoginStatus = Response 200 (Inr online_blob)"
| "online_backend code s CheckLoginStatus = Response 200 (Inr (scan_blob code s))"

definition fresh_client :: client_state where
  "fresh_client = \<lparr>login_status = False, requests = []\<rparr>"

section \<open>Outbound voice parts: the \<open>Record\<close> branch of \<open>WechatEvent.send_with_client\<close>\<close>

text \<open>
  The file system is a map from paths to file contents (bytes as numbers below 256).
  No file has the empty path. Whether \<open>os.remove\<close> succeeds on a path is given by the
  function \<open>unlink\<close>.
\<close>

type_synonym filesystem = "pystr \<rightharpoonup> nat list"

definition path_exists :: "filesystem \<Rightarrow> pystr \<Rightarrow> bool" where
  "path_exists fs p \<longleftrightarrow> p \<noteq> [] \<and> fs p \<noteq> None"

definition read_file :: "filesystem \<Rightarrow> pystr \<Rightarrow> exn + nat list" where
  "read_file fs p =
     (if p = [] then Inl (FileNotFoundError p)
      else case fs p of None \<Rightarrow> Inl (FileNotFoundError p) | Some d \<Rightarrow> Inr d)"

text \<open>
  One round of the cleanup loop: \<open>if f and os.path.exists(f): os.remove(f)\<close> inside
  \<open>try\<close> with \<open>except: pass\<close>, so that a removal that fails is ignored and leaves the
  file where it is.
\<close>

definition remove_temp :: "(pystr \<Rightarrow> bool) \<Rightarrow> filesystem \<Rightarrow> pystr \<Rightarrow> filesystem" where
  "remove_temp unlink fs f =
     (if f \<noteq> [] \<and> path_exists fs f then (if unlink f then fs(f := None) else fs) else fs)"

text \<open>
  \<open>os.path.splitext(p)[1]\<close> on POSIX paths: the extension starts at the last dot of the
  last path component, unless only dots precede it there.
\<close>

definition splitext_ext :: "pystr \<Rightarrow> pystr" where
  "splitext_ext p =
     (let base = rev (takeWhile (\<lambda>c. c \<noteq> 47) (rev p));
          ext = rev (takeWhile (\<lambda>c. c \<noteq> 46) (rev base));
          stem = rev (drop 1 (dropWhile (\<lambda>c. c \<noteq> 46) (rev base)))
      in if 46 \<in> set base \<and> (\<exists>c \<in> set stem. c \<noteq> 46) then 46 # ext else [])"

text \<open>
  \<open>str.lower\<close> is a function of the Python library on whole strings (it lowers some
  letters by their context). The voice branch takes it as the parameter \<open>lower\<close>;
  \<open>py_lower\<close> is what it does on strings of ASCII characters, and stands for it where
  the branch is run on an ASCII path.
\<close>

definition py_lower :: "pystr \<Rightarrow> pystr" where
  "py_lower s = map (\<lambda>c. if 65 \<le> c \<and> c \<le> 90 then c + 32 else c) s"

text \<open>\<open>base64.b64encode(data).decode()\<close>.\<close>

definition b64_char :: "nat \<Rightarrow> nat" where
  "b64_char n =
     (if n < 26 then 65 + n else if n < 52 then 97 + (n - 26)
      else if n < 62 then 48 + (n - 52) else if n = 62 then 43 else 47)"

fun b64encode :: "nat list \<Rightarrow> pystr" where
  "b64encode [] = []"
| "b64encode [a] = [b64_char (a div 4), b64_char ((a mod 4) * 16), 61, 61]"
| "b64encode [a, b] =
     [b64_char (a div 4), b64_char ((a mod 4) * 16 + b div 16), b64_char ((b mod 16) * 4), 61]"
| "b64encode (a # b # c # rest) =
     [b64_char (a div 4), b64_char ((a mod 4) * 16 + b div 16),
      b64_char ((b mod 16) * 4 + c div 64), b64_char (c mod 64)] @ b64encode rest"

text \<open>
  The calls on the backend, with the payload fields each one sends. The network is a
  function telling, for a request, whether posting it raises.
\<close>

datatype request =
    SendTextMessage (ToUserName: pystr) (TextContent: pystr) (AtWxIDList: "pystr list")
  | SendVoice (ToUserName: pystr) (VoiceData: pystr) (VoiceFormat: int) (VoiceSecond: int)

text \<open>\<open>post_text\<close> (lines 356 to 383) and \<open>post_voice\<close> (lines 416 to 437) of the client.\<close>

definition post_text ::
  "(request \<Rightarrow> exn option) \<Rightarrow> pystr \<Rightarrow> pystr \<Rightarrow> pystr \<Rightarrow> exn option \<times> request list" where
  "post_text net to_wxid content ats =
     (let payload = SendTextMessage to_wxid content (py_split [44] ats)
      in (net payload, [payload]))"

definition post_voice ::
  "(request \<Rightarrow> exn option) \<Rightarrow> pystr \<Rightarrow> pystr \<Rightarrow> int \<Rightarrow> exn option \<times> request list" where
  "post_voice net to_wxid voicedata VoiceFormat_arg =
     (let payload = SendVoice to_wxid voicedata 1 0
      in (net payload, [payload]))"

text \<open>
  \<open>str(e)\<close> for the exceptions the branch can catch: the message of a \<open>ValueError\<close>, the
  text the network gave, and the operating system's text for a missing file, whose path
  is quoted as \<open>repr\<close> quotes a path without quotes, backslashes or unprintable characters.
\<close>

fun exn_str :: "exn \<Rightarrow> pystr" where
  "exn_str (ValueError m) = m"
| "exn_str (ConnectionError m) = m"
| "exn_str (FileNotFoundError p) =
     ustr ''[Errno 2] No such file or directory: '' @ [39] @ p @ [39]"
| "exn_str _ = []"

definition mp3_ext :: pystr where
  "mp3_ext = ustr ''.mp3''"

definition wav_ext :: pystr where
  "wav_ext = ustr ''.wav''"

definition unsupported_prefix :: pystr where
  "unsupported_prefix = [19981, 25903, 25345, 30340, 38899, 39057, 26684, 24335, 58, 32]"

definition voice_error_prefix :: pystr where
  "voice_error_prefix = [35821, 38899, 22788, 29702, 38169, 35823, 58, 32]"

text \<open>
  The \<open>try\<close> block up to the backend call (lines 99 to 115): the data URI and the format
  code selected for the container, or the exception raised.
\<close>

definition prepare_voice ::
  "(pystr \<Rightarrow> pystr) \<Rightarrow> filesystem \<Rightarrow> pystr \<Rightarrow> pystr \<Rightarrow> exn + (pystr \<times> int)" where
  "prepare_voice lower fs record_path silk_path =
     (let ext = lower (splitext_ext record_path) in
      if ext = mp3_ext then
        ebind (read_file fs record_path) (\<lambda>mp3_data.
          Inr (ustr ''data:audio/mpeg;base64,'' @ b64encode mp3_data, 2))
      else if ext = wav_ext then
        ebind (read_file fs silk_path) (\<lambda>silk_data.
          Inr (ustr ''data:audio/wav;base64,'' @ b64encode silk_data, 1))
      else Inl (ValueError (unsupported_prefix @ ext)))"

text \<open>
  The whole branch for one voice part (lines 92 to 131): \<open>record_path\<close> is what
  \<open>convert_to_file_path\<close> returned and \<open>silk_path\<close> the fresh name made from a UUID.
  The result is the exception that leaves the branch, if any, the file system after the
  \<open>finally\<close> block, and the requests posted.
\<close>

definition send_record ::
  "(pystr \<Rightarrow> pystr) \<Rightarrow> (pystr \<Rightarrow> bool) \<Rightarrow> (request \<Rightarrow> exn option) \<Rightarrow> filesystem \<Rightarrow>
     pystr \<Rightarrow> pystr \<Rightarrow> pystr \<Rightarrow> exn option \<times> filesystem \<times> request list" where
  "send_record lower unlink net fs to_wxid record_path silk_path =
     (let (caught, reqs1) =
            (case prepare_voice lower fs record_path silk_path of
               Inl e \<Rightarrow> (Some e, [])
             | Inr (base64_data, voiceformat) \<Rightarrow>
                 post_voice net to_wxid base64_data voiceformat);
          (raised, reqs2) =
            (case caught of
               None \<Rightarrow> (None, [])
             | Some e \<Rightarrow> post_text net to_wxid (voice_error_prefix @ exn_str e) []);
          fs' = remove_temp unlink (remove_temp unlink fs record_path) silk_path
      in (raised, fs', reqs1 @ reqs2))"

text \<open>
  \<open>send_with_client\<close> on a composition whose only part is a voice part: without a
  recipient it logs an error and returns before looking at any part (lines 62 to 64),
  otherwise it runs the branch.
\<close>

definition send_voice_part ::
  "(pystr \<Rightarrow> pystr) \<Rightarrow> (pystr \<Rightarrow> bool) \<Rightarrow> (request \<Rightarrow> exn option) \<Rightarrow> filesystem \<Rightarrow>
     pystr \<Rightarrow> pystr \<Rightarrow> pystr \<Rightarrow> exn option \<times> filesystem \<times> request list" where
  "send_voice_part lower unlink net fs to_wxid record_path silk_path =
     (if to_wxid = [] then (None, fs, [])
      else send_record lower unlink net fs to_wxid record_path silk_path)"

text \<open>Concrete inputs: a network that never fails, removals that always succeed or
  always fail, and a store holding one recording.\<close>

definition unlink_ok :: "pystr \<Rightarrow> bool" where
  "unlink_ok p = True"

definition unlink_denied :: "pystr \<Rightarrow> bool" where
  "unlink_denied p = False"

definition net_ok :: "request \<Rightarrow> exn option" where
  "net_ok r = None"

definition one_file :: "pystr \<Rightarrow> filesystem" where
  "one_file p = [p \<mapsto> [77, 97, 110]]"

definition sent_requests :: "exn option \<times> filesystem \<times> request list \<Rightarrow> request list" where
  "sent_requests r = snd (snd r)"

definition files_after :: "exn option \<times> filesystem \<times> request list \<Rightarrow> filesystem" where
  "files_after r = fst (snd r)"

definition mp3_path :: pystr where
  "mp3_path = ustr ''data/temp/a.mp3''"

definition wav_path :: pystr where
  "wav_path = ustr ''data/temp/a.wav''"

definition ogg_path :: pystr where
  "ogg_path = ustr ''data/temp/a.ogg''"

definition silk_tmp :: pystr where
  "silk_tmp = ustr ''data/temp/u.silk''"

definition bob :: pystr where
  "bob = ustr ''bob''"

section \<open>The stream transport: \<open>ipad855Client.start_polling\<close> and \<open>keepalive\<close>\<close>

text \<open>
  \<open>start_polling\<close> and the heartbeat task it creates are two coroutines on one event
  loop; each runs until its next \<open>await\<close>. The state records where \<open>start_polling\<close>
  waits (\<open>Connecting\<close>: in \<open>websockets.connect\<close>; \<open>Reading\<close>: in \<open>websocket.recv\<close>;
  \<open>Backoff\<close>: in the five-second sleep of the exception handler; \<open>Stopped\<close>: returned),
  whether the heartbeat task is alive (\<open>Sleeping\<close>: inside its sleep-and-ping round),
  the number of open connections, the shutdown flag, and what was logged. An event is
  the outcome of the \<open>await\<close> on which a coroutine waits, or a call of \<open>terminate\<close>,
  which sets the flag; an event for which nobody waits leaves the state as it is.
  A receive timeout is an event of its own, and \<open>exn\<close> has no timeout among its values.
\<close>

datatype phase = Connecting | Reading | Backoff | Stopped

datatype task = NoTask | Sleeping | Finished | Cancelled

datatype transport_log =
    DebugConnected
  | DebugFrame json
  | ErrorConnection exn
  | DebugHeartbeat
  | WarnHeartbeat exn

record transport =
  shutdown_event :: bool
  phase :: phase
  keepalive_task :: task
  open_connections :: nat
  trace :: "transport_log list"

datatype frame = Malformed | WellFormed json

datatype event =
    ConnectOk
  | ConnectFail exn
  | Recv frame
  | RecvTimeout
  | RecvFail exn
  | PingOk
  | PingFail exn
  | SleepDone
  | SetShutdown

text \<open>The test of the outer \<open>while\<close> (line 70).\<close>

definition outer_loop :: "transport \<Rightarrow> transport" where
  "outer_loop s = (if shutdown_event s then s\<lparr>phase := Stopped\<rparr> else s\<lparr>phase := Connecting\<rparr>)"

text \<open>
  Leaving the connection: the \<open>finally\<close> clause cancels the heartbeat task, which does
  nothing to a task that has ended, and the exit of \<open>async with\<close> closes the connection.
\<close>

definition cancel :: "task \<Rightarrow> task" where
  "cancel t = (if t = Finished then Finished else Cancelled)"

definition leave_connection :: "transport \<Rightarrow> transport" where
  "leave_connection s =
     s\<lparr>keepalive_task := cancel (keepalive_task s),
       open_connections := open_connections s - 1\<rparr>"

text \<open>The test of the inner \<open>while\<close> (line 84); when it fails the connection is left
  without an exception and the outer loop tests the flag again.\<close>

definition inner_loop :: "transport \<Rightarrow> transport" where
  "inner_loop s =
     (if shutdown_event s then outer_loop (leave_connection s) else s\<lparr>phase := Reading\<rparr>)"

text \<open>
  The handler \<open>except Exception\<close> of the outer loop (lines 95 to 98), and an exception
  raised inside the connection, which leaves the connection first. The inner \<open>try\<close>
  catches the receive timeout only.
\<close>

definition on_exception :: "exn \<Rightarrow> transport \<Rightarrow> transport" where
  "on_exception e s =
     (let s1 = s\<lparr>trace := trace s @ [ErrorConnection e]\<rparr>
      in if shutdown_event s1 then outer_loop s1 else s1\<lparr>phase := Backoff\<rparr>)"

definition teardown :: "exn \<Rightarrow> transport \<Rightarrow> transport" where
  "teardown e s = on_exception e (leave_connection s)"

text \<open>One event; \<open>h\<close> is \<open>on_message_received\<close>, giving the exception it raises, if any.\<close>

fun step :: "(json \<Rightarrow> exn option) \<Rightarrow> event \<Rightarrow> transport \<Rightarrow> transport" where
  "step h SetShutdown s = s\<lparr>shutdown_event := True\<rparr>"
| "step h ConnectOk s =
     (if phase s = Connecting
      then inner_loop (s\<lparr>open_connections := open_connections s + 1,
                         keepalive_task := Sleeping,
                         trace := trace s @ [DebugConnected]\<rparr>)
      else s)"
| "step h (ConnectFail e) s = (if phase s = Connecting then on_exception e s else s)"
| "step h (Recv Malformed) s = (if phase s = Reading then teardown JSONDecodeError s else s)"
| "step h (Recv (WellFormed j)) s =
     (if phase s = Reading
      then (case h j of
              None \<Rightarrow> inner_loop (s\<lparr>trace := trace s @ [DebugFrame j]\<rparr>)
            | Some e \<Rightarrow> teardown e (s\<lparr>trace := trace s @ [DebugFrame j]\<rparr>))
      else s)"
| "step h RecvTimeout s = (if phase s = Reading then inner_loop s else s)"
| "step h (RecvFail e) s = (if phase s = Reading then teardown e s else s)"
| "step h PingOk s =
     (if keepalive_task s = Sleeping
      then s\<lparr>trace := trace s @ [DebugHeartbeat],
             keepalive_task := (if shutdown_event s then Finished else Sleeping)\<rparr>
      else s)"
| "step h (PingFail e) s =
     (if keepalive_task s = Sleeping
      then s\<lparr>trace := trace s @ [WarnHeartbeat e], keepalive_task := Finished\<rparr>
      else s)"
| "step h SleepDone s = (if phase s = Backoff then outer_loop s else s)"

text \<open>A sequence of events, and the state in which \<open>start_polling\<close> first waits (or has
  returned, when the flag \<open>sd\<close> was set before the call).\<close>

fun run :: "(json \<Rightarrow> exn option) \<Rightarrow> event list \<Rightarrow> transport \<Rightarrow> transport" where
  "run h [] s = s"
| "run h (e # es) s = run h es (step h e s)"

definition start_polling :: "bool \<Rightarrow> transport" where
  "start_polling sd =
     outer_loop \<lparr>shutdown_event = sd, phase = Stopped, keepalive_task = NoTask,
                 open_connections = 0, trace = []\<rparr>"

text \<open>
  \<open>WechatPlatformAdapter.terminate\<close>. The adapter's own \<open>ws\<close> attribute is \<open>None\<close> or a
  socket whose \<open>close()\<close> succeeds or raises; \<open>client\<close> holds the transport state with
  the shutdown flag. The result is the adapter afterwards and what the call logged.
\<close>

datatype websocket = WebSocket "exn option"

datatype adapter_log = ErrorClose exn | InfoTerminated

record adapter =
  ws :: "websocket option"
  client :: transport

definition terminate :: "adapter \<Rightarrow> adapter \<times> adapter_log list" where
  "terminate a =
     (a\<lparr>client := (client a)\<lparr>shutdown_event := True\<rparr>, ws := None\<rparr>,
      (case ws a of Some (WebSocket (Some e)) \<Rightarrow> [ErrorClose e] | _ \<Rightarrow> []) @ [InfoTerminated])"

definition terminated :: "adapter \<Rightarrow> adapter" where
  "terminated a = fst (terminate a)"

text \<open>Concrete inputs and the invariant of the reconnect loop.\<close>

definition quiet_handler :: "json \<Rightarrow> exn option" where
  "quiet_handler j = None"

definition probe_error :: exn where
  "probe_error = ConnectionError (ustr ''ping failed'')"

definition conn_inv :: "transport \<Rightarrow> bool" where
  "conn_inv s \<longleftrightarrow> open_connections s = (if phase s = Reading then 1 else 0)"

section \<open>Properties of the string operations\<close>

lemma starts_with_Nil [simp]: "starts_with sep [] \<longleftrightarrow> sep = []"
  by (cases sep) simp_all

lemma split_aux_no_sep: "\<not> is_substr sep s \<Longrightarrow> split_aux sep acc s = [rev acc @ s]"
  by (induction s arbitrary: acc) auto

lemma py_split_no_sep: "\<not> is_substr sep s \<Longrightarrow> py_split sep s = [s]"
  by (simp add: py_split_def split_aux_no_sep)

lemma split_aux_nonempty: "split_aux sep acc s \<noteq> []"
  by (induction s arbitrary: acc) auto

lemma split_aux_char_hd:
  "hd (split_aux [c] acc s) = rev acc @ takeWhile (\<lambda>x. x \<noteq> c) s"
  by (induction s arbitrary: acc) auto

lemma py_split_char_0:
  "py_index (py_split [c] s) 0 = Inr (takeWhile (\<lambda>x. x \<noteq> c) s)"
  using split_aux_nonempty [of "[c]" "[]" s] split_aux_char_hd [of c "[]" s]
  by (simp add: py_index_def py_split_def hd_conv_nth)

lemma split1_aux_char:
  "c \<in> set s \<Longrightarrow>
   split1_aux [c] acc s = [rev acc @ takeWhile (\<lambda>x. x \<noteq> c) s, tl (dropWhile (\<lambda>x. x \<noteq> c) s)]"
  by (induction s arbitrary: acc) auto

lemma is_substr_char: "is_substr [c] s \<longleftrightarrow> c \<in> set s"
  by (induction s) auto

text \<open>Stripping keeps a front that does not start with a space, so stripping twice
  is stripping once; the group branch strips the nickname twice.\<close>

lemma strip_front_kept:
  assumes "t = [] \<or> \<not> P (hd t)"
  shows "dropWhile P (rev (dropWhile P (rev t))) = rev (dropWhile P (rev t))"
proof (cases "dropWhile P (rev t) = []")
  case True
  show ?thesis unfolding True by simp
next
  case False
  have "t = rev (dropWhile P (rev t)) @ rev (takeWhile P (rev t))"
    by (metis rev_append rev_rev_ident takeWhile_dropWhile_id)
  with False have "hd (rev (dropWhile P (rev t))) = hd t" "t \<noteq> []"
    by (metis hd_append2 rev_is_Nil_conv, metis append_is_Nil_conv rev_is_Nil_conv)
  with assms show ?thesis
    by (simp add: dropWhile_eq_self_iff)
qed

lemma py_strip_idem: "py_strip (py_strip s) = py_strip s"
proof -
  have "dropWhile is_space s = [] \<or> \<not> is_space (hd (dropWhile is_space s))"
    using hd_dropWhile by blast
  from strip_front_kept [of "dropWhile is_space s" is_space, OF this] show ?thesis
    by (simp add: py_strip_def)
qed

lemma py_get_obj: "py_get d k v = Inr r \<Longrightarrow> \<exists>kv. d = JObj kv"
  by (cases d) simp_all

lemma ebind_Inr [simp]: "ebind (Inr x) f = f x"
  by (simp add: ebind_def)

lemma ebind_Inl [simp]: "ebind (Inl e) f = Inl e"
  by (simp add: ebind_def)

lemmas frame_simps = mk_frame_def ustr_def convert_message_def convert_body_def group_extract_def
  py_split_def py_split1_def py_index_def py_strip_def is_space_def at_marker_def colon_def
  colon_nl_def chatroom_marker_def abm_nickname_def abm_sender_id_def abm_components_def

section \<open>Properties of message normalization\<close>

text \<open>
  Scenario A of the specification: the push text is \<open>Alice\<close> followed by the mention
  marker, the raw content \<open>alice_id:\n hello\<close> with a single delimiter. The nickname is
  \<open>Alice\<close>, the sender id \<open>alice_id\<close> and the text \<open>hello\<close>.
\<close>

lemma scenario_A:
  "abm_nickname (fst (convert_message (ustr ''bot_id'') 0 frame_alice)) = Some (ustr ''Alice'') \<and>
   abm_sender_id (fst (convert_message (ustr ''bot_id'') 0 frame_alice)) =
     Some (JStr (ustr ''alice_id'')) \<and>
   abm_components (fst (convert_message (ustr ''bot_id'') 0 frame_alice)) =
     Some [Plain (ustr ''hello'')]"
  by (simp add: frame_alice_def frame_simps)

text \<open>
  C6. For a group frame whose push string contains the mention marker, the text should be
  everything after the first \<open>:\n\<close> of the raw content. The mention rule takes element 1
  of an unbounded \<open>split\<close>, where the third rule splits once: with the raw content
  \<open>alice_id:\n line1:\n line2\<close> the text is \<open>line1\<close>, and \<open>line2\<close> is lost.
\<close>

theorem mention_text_truncated:
  "abm_components (fst (convert_message (ustr ''bot_id'') 0 frame_alice_two)) =
     Some [Plain (ustr ''line1'')]"
  by (simp add: frame_alice_two_def frame_simps)

text \<open>
  C7 as stated fails on the nickname: the code strips it. The push string
  \<open> Carol : yo\<close> has \<open> Carol \<close> before its first colon, and the nickname is \<open>Carol\<close>.
\<close>

theorem direct_nickname_counterexample:
  "abm_nickname (fst (convert_message (ustr ''bot_id'') 0 frame_carol_spaced)) =
     Some (ustr ''Carol'') \<and>
   takeWhile (\<lambda>x. x \<noteq> 58) (ustr '' Carol : yo'') = ustr '' Carol '' \<and>
   ustr ''Carol'' \<noteq> ustr '' Carol ''"
  by (simp add: frame_carol_spaced_def frame_simps)

text \<open>
  C7, amended. For a direct frame (the sender is a string without the group marker):
  if the sender is the adapter's own identity, normalization returns none and logs
  nothing; for any other sender, when the push text is a string (or absent), the
  content is an object (or absent) and the text in it is a string (or absent), it
  returns a message of type \<open>FRIEND_MESSAGE\<close> whose sender id is the frame's sender,
  whose nickname is the push string before its first colon with surrounding whitespace
  stripped, and whose only component is the content text verbatim.
\<close>

theorem convert_message_direct:
  assumes fu: "py_get data (ustr ''from_user_name'') (JObj []) = Inr fu"
    and fs: "py_get fu (ustr ''str'') (JStr []) = Inr (JStr from_user)"
    and dm: "\<not> is_substr chatroom_marker from_user"
  shows "(from_user = wxid \<longrightarrow> convert_message wxid now data = (None, [])) \<and>
         (from_user \<noteq> wxid \<longrightarrow>
          py_get data (ustr ''push_content'') (JStr []) = Inr (JStr push) \<longrightarrow>
          py_get data (ustr ''content'') (JObj []) = Inr c \<longrightarrow>
          py_get c (ustr ''str'') (JStr []) = Inr (JStr text) \<longrightarrow>
          (\<exists>abm. fst (convert_message wxid now data) = Some abm \<and>
                 abm_type abm = FRIEND_MESSAGE \<and>
                 user_id (sender abm) = JStr from_user \<and>
                 nickname (sender abm) = py_strip (takeWhile (\<lambda>x. x \<noteq> 58) push) \<and>
                 message abm = [Plain text] \<and>
                 group_id abm = None))"
proof -
  obtain kv where d: "data = JObj kv" using fu py_get_obj by blast
  have echo: "from_user = wxid \<Longrightarrow> convert_message wxid now data = (None, [])"
    using fu fs dm by (simp add: convert_message_def convert_body_def d)
  have other: "\<exists>abm. fst (convert_message wxid now data) = Some abm \<and>
                 abm_type abm = FRIEND_MESSAGE \<and>
                 user_id (sender abm) = JStr from_user \<and>
                 nickname (sender abm) = py_strip (takeWhile (\<lambda>x. x \<noteq> 58) push) \<and>
                 message abm = [Plain text] \<and>
                 group_id abm = None"
    if "from_user \<noteq> wxid"
      and p: "py_get data (ustr ''push_content'') (JStr []) = Inr (JStr push)"
      and c: "py_get data (ustr ''content'') (JObj []) = Inr c"
      and t: "py_get c (ustr ''str'') (JStr []) = Inr (JStr text)"
  proof -
    have "convert_body wxid now data =
      Inr (Some \<lparr>abm_type = FRIEND_MESSAGE, self_id = wxid,
                 message_id = (case map_of kv (ustr ''msg_id'') of Some v \<Rightarrow> v | None \<Rightarrow> JStr []),
                 timestamp = (case map_of kv (ustr ''create_time'') of Some v \<Rightarrow> v
                              | None \<Rightarrow> JInt now),
                 sender = \<lparr>user_id = JStr from_user,
                           nickname = py_strip (takeWhile (\<lambda>x. x \<noteq> 58) push)\<rparr>,
                 message = [Plain text],
                 session_id = JStr from_user, group_id = None, raw_message = None\<rparr>)"
      unfolding convert_body_def
      using fu fs dm that py_split_char_0 [of 58 push]
      by (simp add: d colon_def)
    then show ?thesis by (simp add: convert_message_def)
  qed
  from echo other show ?thesis by blast
qed

text \<open>
  The theorem at two frames: one sent by the adapter's own identity \<open>bot_id\<close>, and
  Scenario C of the specification (push text \<open>Carol: yo\<close>, content \<open>yo\<close>, sender
  \<open>carol_id\<close>).
\<close>

theorem convert_message_direct_witness:
  "convert_message (ustr ''bot_id'') 0 frame_self = (None, []) \<and>
   (\<exists>abm. fst (convert_message (ustr ''bot_id'') 0 frame_carol) = Some abm \<and>
          abm_type abm = FRIEND_MESSAGE \<and>
          user_id (sender abm) = JStr (ustr ''carol_id'') \<and>
          nickname (sender abm) = ustr ''Carol'' \<and>
          message abm = [Plain (ustr ''yo'')] \<and>
          group_id abm = None)"
proof -
  have s: "convert_message (ustr ''bot_id'') 0 frame_self = (None, [])"
    using convert_message_direct [of frame_self "JObj [(ustr ''str'', JStr (ustr ''bot_id''))]"
        "ustr ''bot_id''" "ustr ''bot_id''" 0]
    by (simp add: frame_self_def mk_frame_def ustr_def chatroom_marker_def)
  have c: "\<exists>abm. fst (convert_message (ustr ''bot_id'') 0 frame_carol) = Some abm \<and>
          abm_type abm = FRIEND_MESSAGE \<and>
          user_id (sender abm) = JStr (ustr ''carol_id'') \<and>
          nickname (sender abm) = ustr ''Carol'' \<and>
          message abm = [Plain (ustr ''yo'')] \<and>
          group_id abm = None"
    using convert_message_direct [of frame_carol "JObj [(ustr ''str'', JStr (ustr ''carol_id''))]"
        "ustr ''carol_id''" "ustr ''bot_id''" 0 "ustr ''Carol: yo''"
        "JObj [(ustr ''str'', JStr (ustr ''yo''))]" "ustr ''yo''"]
    by (simp add: frame_carol_def mk_frame_def ustr_def chatroom_marker_def py_strip_def
        is_space_def)
  from s c show ?thesis by blast
qed

text \<open>
  A direct frame whose content text is \<open>None\<close> is dropped by the validation of \<open>Plain\<close>,
  and a content text that is the number 5 becomes the string \<open>5\<close>.
\<close>

lemma direct_content_validated:
  "convert_message (ustr ''bot_id'') 0 frame_null_content =
     (None, [LogErrorConvert ValidationError frame_null_content]) \<and>
   abm_components (fst (convert_message (ustr ''bot_id'') 0 frame_int_content)) =
     Some [Plain (ustr ''5'')]"
  by (simp add: frame_null_content_def frame_int_content_def frame_simps py_str_int_def
      digits.simps)

text \<open>
  C8. Normalization never hands an exception to its caller: its result is a message or
  none, paired with the log. Whenever the body of the \<open>try\<close> block raises, the result is
  none and the exception is logged with the frame; a message is returned only when the
  body completed. In particular, when a group frame matches none of the three extraction
  rules, the use of the unbound nickname raises, so the frame is dropped and logged.
\<close>

theorem convert_message_total:
  "(convert_body wxid now data = Inl e \<longrightarrow>
      convert_message wxid now data = (None, [LogErrorConvert e data])) \<and>
   (fst (convert_message wxid now data) = None \<or>
      (\<exists>abm. convert_body wxid now data = Inr (Some abm) \<and>
             fst (convert_message wxid now data) = Some (abm\<lparr>raw_message := Some data\<rparr>))) \<and>
   (py_get data (ustr ''from_user_name'') (JObj []) = Inr fu \<longrightarrow>
    py_get fu (ustr ''str'') (JStr []) = Inr from_user \<longrightarrow>
    py_in chatroom_marker from_user = Inr True \<longrightarrow>
    py_get data (ustr ''push_content'') (JObj []) = Inr push \<longrightarrow>
    py_get data (ustr ''content'') (JObj []) = Inr c \<longrightarrow>
    py_get c (ustr ''str'') (JStr []) = Inr raw \<longrightarrow>
    py_in at_marker push = Inr False \<longrightarrow>
    py_in colon push = Inr False \<longrightarrow>
    py_in colon_nl raw = Inr False \<longrightarrow>
      convert_message wxid now data = (None, [LogErrorConvert UnboundLocalError data]))"
proof (intro conjI impI)
  assume "convert_body wxid now data = Inl e"
  then show "convert_message wxid now data = (None, [LogErrorConvert e data])"
    by (simp add: convert_message_def)
next
  show "fst (convert_message wxid now data) = None \<or>
      (\<exists>abm. convert_body wxid now data = Inr (Some abm) \<and>
             fst (convert_message wxid now data) = Some (abm\<lparr>raw_message := Some data\<rparr>))"
    by (simp add: convert_message_def split: sum.splits option.splits)
next
  assume fu: "py_get data (ustr ''from_user_name'') (JObj []) = Inr fu"
    and a: "py_get fu (ustr ''str'') (JStr []) = Inr from_user"
      "py_in chatroom_marker from_user = Inr True"
      "py_get data (ustr ''push_content'') (JObj []) = Inr push"
      "py_get data (ustr ''content'') (JObj []) = Inr c"
      "py_get c (ustr ''str'') (JStr []) = Inr raw"
      "py_in at_marker push = Inr False"
      "py_in colon push = Inr False"
      "py_in colon_nl raw = Inr False"
  obtain kv where d: "data = JObj kv" using fu py_get_obj by blast
  have "group_extract push raw = Inr None"
    using a by (simp add: group_extract_def)
  then have "convert_body wxid now data = Inl UnboundLocalError"
    unfolding convert_body_def using fu a by (simp add: d)
  then show "convert_message wxid now data = (None, [LogErrorConvert UnboundLocalError data])"
    by (simp add: convert_message_def)
qed

text \<open>The theorem at a group frame with push text \<open>hello\<close> and raw content \<open>hi\<close>.\<close>

theorem convert_message_total_witness:
  "convert_message (ustr ''bot_id'') 0 frame_nomatch =
     (None, [LogErrorConvert UnboundLocalError frame_nomatch])"
  using convert_message_total [of "ustr ''bot_id''" 0 frame_nomatch UnboundLocalError
      "JObj [(ustr ''str'', JStr (ustr ''42@chatroom''))]" "JStr (ustr ''42@chatroom'')"
      "JStr (ustr ''hello'')" "JObj [(ustr ''str'', JStr (ustr ''hi''))]" "JStr (ustr ''hi'')"]
  by (simp add: frame_nomatch_def mk_frame_def ustr_def chatroom_marker_def at_marker_def
      colon_def colon_nl_def)

text \<open>
  C10. A group frame whose push string has no mention marker but has a colon, and whose
  raw content has no \<open>:\n\<close> delimiter, is normalized by the colon rule, and the sender id
  of the message is the entire raw content.
\<close>

theorem convert_message_group_no_delimiter:
  assumes fu: "py_get data (ustr ''from_user_name'') (JObj []) = Inr fu"
    and fs: "py_get fu (ustr ''str'') (JStr []) = Inr (JStr from_user)"
    and grp: "is_substr chatroom_marker from_user"
    and p: "py_get data (ustr ''push_content'') (JObj []) = Inr (JStr push)"
    and nm: "\<not> is_substr at_marker push"
    and pc: "is_substr colon push"
    and c: "py_get data (ustr ''content'') (JObj []) = Inr c"
    and r: "py_get c (ustr ''str'') (JStr []) = Inr (JStr raw)"
    and nd: "\<not> is_substr colon_nl raw"
  shows "\<exists>abm. fst (convert_message wxid now data) = Some abm \<and>
               abm_type abm = GROUP_MESSAGE \<and>
               user_id (sender abm) = JStr raw \<and>
               nickname (sender abm) = py_strip (takeWhile (\<lambda>x. x \<noteq> 58) push) \<and>
               message abm = [Plain (tl (dropWhile (\<lambda>x. x \<noteq> 58) push))]"
proof -
  obtain kv where d: "data = JObj kv" using fu py_get_obj by blast
  have mem: "58 \<in> set push" using pc by (simp add: colon_def is_substr_char)
  have ex: "group_extract (JStr push) (JStr raw) =
      Inr (Some (py_strip (takeWhile (\<lambda>x. x \<noteq> 58) push), tl (dropWhile (\<lambda>x. x \<noteq> 58) push)))"
    using nm pc split1_aux_char [OF mem, of "[]"]
    by (simp add: group_extract_def py_split1_def colon_def)
  have "\<exists>abm. convert_body wxid now data = Inr (Some abm) \<and>
               abm_type abm = GROUP_MESSAGE \<and>
               user_id (sender abm) = JStr raw \<and>
               nickname (sender abm) = py_strip (takeWhile (\<lambda>x. x \<noteq> 58) push) \<and>
               message abm = [Plain (tl (dropWhile (\<lambda>x. x \<noteq> 58) push))]"
    unfolding convert_body_def
    using fu fs grp p c r ex py_split_no_sep [OF nd]
    by (simp add: d py_index_def py_strip_idem)
  then show ?thesis by (auto simp add: convert_message_def)
qed

text \<open>The theorem at a group frame with push text \<open>Bob: hi there\<close> and raw content
  \<open>hi there\<close>.\<close>

theorem convert_message_group_no_delimiter_witness:
  "\<exists>abm. fst (convert_message (ustr ''bot_id'') 0 frame_bob) = Some abm \<and>
         abm_type abm = GROUP_MESSAGE \<and>
         user_id (sender abm) = JStr (ustr ''hi there'') \<and>
         nickname (sender abm) = ustr ''Bob'' \<and>
         message abm = [Plain (ustr '' hi there'')]"
  using convert_message_group_no_delimiter [of frame_bob
      "JObj [(ustr ''str'', JStr (ustr ''42@chatroom''))]" "ustr ''42@chatroom''"
      "ustr ''Bob: hi there''" "JObj [(ustr ''str'', JStr (ustr ''hi there''))]"
      "ustr ''hi there''" "ustr ''bot_id''" 0]
  by (simp add: frame_bob_def mk_frame_def ustr_def chatroom_marker_def at_marker_def colon_def
      colon_nl_def py_strip_def is_space_def)

section \<open>Properties of the login status check\<close>

text \<open>
  C5 as stated fails for a scan state other than 0, 1 and 2: with the success code 200
  and the state 3 the check returns \<open>False\<close> after the one request on the scan endpoint,
  although \<open>check_online\<close> on the same backend reports online.
\<close>

theorem scan_state_counterexample:
  "check_login_status (online_backend 200 3) fresh_client =
     (False, \<lparr>login_status = False, requests = [CheckLoginStatus]\<rparr>) \<and>
   fst (check_online (online_backend 200 3) fresh_client) = True"
  by (simp add: check_login_status_def check_online_def scan_verdict_def online_of_blob_def
      fresh_client_def scan_blob_def online_blob_def ustr_def)

text \<open>
  C5, amended. On a response with HTTP status 200 whose body is an object with a
  \<open>Code\<close>: if the code is not 200, the check asks \<open>check_online\<close> and returns its
  answer; if the code is 200 and the data carry an integer state \<open>s\<close>, it returns true
  exactly for \<open>s = 2\<close> (so false for 0 and 1, and false for any other state) and makes no
  further request.
\<close>

theorem check_login_status_cases:
  assumes r: "backend CheckLoginStatus = Response 200 (Inr (JObj kv))"
    and c: "map_of kv (ustr ''Code'') = Some code"
  shows "(\<not> py_eq_int code 200 \<longrightarrow>
            check_login_status backend st =
              check_online backend (st\<lparr>requests := requests st @ [CheckLoginStatus]\<rparr>)) \<and>
         (py_eq_int code 200 \<longrightarrow>
          map_of kv (ustr ''Data'') = Some (JObj dkv) \<longrightarrow>
          map_of dkv (ustr ''state'') = Some (JInt s) \<longrightarrow>
            check_login_status backend st =
              (s = 2, st\<lparr>requests := requests st @ [CheckLoginStatus]\<rparr>))"
  using r c by (simp add: check_login_status_def scan_verdict_def)

text \<open>The theorem on a backend that is online: the failure code 500, and the success
  code with the states 0, 1 and 2.\<close>

theorem check_login_status_cases_witness:
  "check_login_status (online_backend 500 0) fresh_client =
     (True, \<lparr>login_status = True, requests = [CheckLoginStatus, GetLoginStatus]\<rparr>) \<and>
   check_login_status (online_backend 200 0) fresh_client =
     (False, \<lparr>login_status = False, requests = [CheckLoginStatus]\<rparr>) \<and>
   check_login_status (online_backend 200 1) fresh_client =
     (False, \<lparr>login_status = False, requests = [CheckLoginStatus]\<rparr>) \<and>
   check_login_status (online_backend 200 2) fresh_client =
     (True, \<lparr>login_status = False, requests = [CheckLoginStatus]\<rparr>)"
proof -
  have on: "check_online (online_backend 500 0)
              \<lparr>login_status = False, requests = [CheckLoginStatus]\<rparr> =
      (True, \<lparr>login_status = True, requests = [CheckLoginStatus, GetLoginStatus]\<rparr>)"
    by (simp add: check_online_def online_of_blob_def online_blob_def ustr_def)
  have f: "check_login_status (online_backend 500 0) fresh_client =
      (True, \<lparr>login_status = True, requests = [CheckLoginStatus, GetLoginStatus]\<rparr>)"
    using check_login_status_cases [of "online_backend 500 0"
        "[(ustr ''Code'', JInt 500), (ustr ''Data'', JObj [(ustr ''state'', JInt 0)])]"
        "JInt 500" fresh_client] on
    by (simp add: scan_blob_def fresh_client_def)
  have d: "check_login_status (online_backend 200 s) fresh_client =
      (s = 2, \<lparr>login_status = False, requests = [CheckLoginStatus]\<rparr>)" for s
    using check_login_status_cases [of "online_backend 200 s"
        "[(ustr ''Code'', JInt 200), (ustr ''Data'', JObj [(ustr ''state'', JInt s)])]"
        "JInt 200" fresh_client "[(ustr ''state'', JInt s)]" s]
    by (simp add: scan_blob_def fresh_client_def ustr_def)
  from f d [of 0] d [of 1] d [of 2] show ?thesis by simp
qed

section \<open>Properties of the voice dispatch\<close>

lemma remove_temp_gone:
  "(unlink a \<longrightarrow> \<not> path_exists (remove_temp unlink (remove_temp unlink fs a) b) a) \<and>
   (unlink b \<longrightarrow> \<not> path_exists (remove_temp unlink (remove_temp unlink fs a) b) b)"
  by (simp add: remove_temp_def path_exists_def)

lemma remove_temp_kept:
  "(\<not> unlink a \<longrightarrow>
      path_exists (remove_temp unlink (remove_temp unlink fs a) b) a = path_exists fs a) \<and>
   (\<not> unlink b \<longrightarrow>
      path_exists (remove_temp unlink (remove_temp unlink fs a) b) b = path_exists fs b)"
  by (auto simp add: remove_temp_def path_exists_def)

text \<open>Whatever the container, a voice call posted by the branch carries the format
  code 1 and the duration 0.\<close>

lemma voice_format_always_one:
  "SendVoice t d f sec \<in>
     set (sent_requests (send_record lower unlink net fs to_wxid record_path silk_path))
   \<Longrightarrow> f = 1 \<and> sec = 0"
  by (auto simp add: send_record_def post_voice_def post_text_def sent_requests_def Let_def
      split: sum.splits prod.splits option.splits)

text \<open>
  C3. The format code sent to the backend should be the one selected for the container:
  2 for MP3, and 1 for WAV after conversion to silk. For an MP3 recording the branch
  selects 2, but \<open>post_voice\<close> ignores its argument and sends 1. For a WAV recording
  nothing converts the file: the branch reads a silk file that was never written, and
  the part ends in an error reply with no voice call.
\<close>

theorem voice_format_sent:
  "prepare_voice py_lower (one_file mp3_path) mp3_path silk_tmp =
     Inr (ustr ''data:audio/mpeg;base64,TWFu'', 2) \<and>
   sent_requests (send_record py_lower unlink_ok net_ok (one_file mp3_path) bob mp3_path silk_tmp) =
     [SendVoice bob (ustr ''data:audio/mpeg;base64,TWFu'') 1 0] \<and>
   sent_requests (send_record py_lower unlink_ok net_ok (one_file wav_path) bob wav_path silk_tmp) =
     [SendTextMessage bob
        (voice_error_prefix @ ustr ''[Errno 2] No such file or directory: '' @ [39] @ silk_tmp @ [39])
        [[]]]"
  by (simp add: send_record_def prepare_voice_def post_voice_def post_text_def sent_requests_def
      one_file_def mp3_path_def wav_path_def silk_tmp_def bob_def net_ok_def ustr_def
      splitext_ext_def py_lower_def mp3_ext_def wav_ext_def read_file_def b64_char_def
      py_split_def)

text \<open>
  C4 as stated fails on the cleanup: a removal that fails is ignored. When
  \<open>os.remove\<close> fails on the recording \<open>data/temp/a.ogg\<close>, the error reply is sent and
  the recording still exists afterwards.
\<close>

theorem cleanup_counterexample:
  "sent_requests (send_voice_part py_lower unlink_denied net_ok (one_file ogg_path) bob ogg_path
      silk_tmp) =
     [SendTextMessage bob (voice_error_prefix @ unsupported_prefix @ ustr ''.ogg'') [[]]] \<and>
   path_exists (files_after (send_voice_part py_lower unlink_denied net_ok (one_file ogg_path) bob
      ogg_path silk_tmp)) ogg_path"
  by (simp add: send_voice_part_def send_record_def prepare_voice_def post_text_def
      sent_requests_def files_after_def remove_temp_def path_exists_def unlink_denied_def
      one_file_def ogg_path_def silk_tmp_def bob_def net_ok_def ustr_def splitext_ext_def
      py_lower_def mp3_ext_def wav_ext_def py_split_def)

text \<open>
  C4, amended. For a voice part sent to a recipient that is not empty: on every path
  out of the branch, whatever the network does, the removal of the recording and of the
  silk artifact is attempted; a file whose removal succeeds does not exist afterwards,
  and a file whose removal fails is left as it was. When the lowered extension is neither
  \<open>.mp3\<close> nor \<open>.wav\<close>, the only request is the error reply, a text message to the
  recipient naming the unsupported format, so there is no voice call; the branch raises
  only if posting that reply does.
\<close>

theorem unsupported_voice_format:
  assumes "to_wxid \<noteq> []"
  shows
  "(unlink record_path \<longrightarrow>
      \<not> path_exists (files_after (send_voice_part lower unlink net fs to_wxid record_path silk_path))
          record_path) \<and>
   (unlink silk_path \<longrightarrow>
      \<not> path_exists (files_after (send_voice_part lower unlink net fs to_wxid record_path silk_path))
          silk_path) \<and>
   (\<not> unlink record_path \<longrightarrow>
      path_exists (files_after (send_voice_part lower unlink net fs to_wxid record_path silk_path))
          record_path = path_exists fs record_path) \<and>
   (\<not> unlink silk_path \<longrightarrow>
      path_exists (files_after (send_voice_part lower unlink net fs to_wxid record_path silk_path))
          silk_path = path_exists fs silk_path) \<and>
   (lower (splitext_ext record_path) \<noteq> mp3_ext \<longrightarrow>
    lower (splitext_ext record_path) \<noteq> wav_ext \<longrightarrow>
      sent_requests (send_voice_part lower unlink net fs to_wxid record_path silk_path) =
        [SendTextMessage to_wxid
           (voice_error_prefix @ unsupported_prefix @ lower (splitext_ext record_path)) [[]]] \<and>
      fst (send_voice_part lower unlink net fs to_wxid record_path silk_path) =
        net (SendTextMessage to_wxid
           (voice_error_prefix @ unsupported_prefix @ lower (splitext_ext record_path)) [[]]))"
proof -
  have v: "send_voice_part lower unlink net fs to_wxid record_path silk_path =
      send_record lower unlink net fs to_wxid record_path silk_path"
    using assms by (simp add: send_voice_part_def)
  have f: "files_after (send_record lower unlink net fs to_wxid record_path silk_path) =
      remove_temp unlink (remove_temp unlink fs record_path) silk_path"
    by (simp add: send_record_def files_after_def split: prod.splits)
  have u: "lower (splitext_ext record_path) \<noteq> mp3_ext \<Longrightarrow>
      lower (splitext_ext record_path) \<noteq> wav_ext \<Longrightarrow>
      prepare_voice lower fs record_path silk_path =
        Inl (ValueError (unsupported_prefix @ lower (splitext_ext record_path)))"
    by (simp add: prepare_voice_def)
  show ?thesis
    unfolding v f
    using remove_temp_gone [of unlink record_path fs silk_path]
      remove_temp_kept [of unlink record_path fs silk_path]
    by (simp add: send_record_def u post_text_def sent_requests_def py_split_def Let_def)
qed

text \<open>The theorem at a recording \<open>data/temp/a.ogg\<close> that exists before the call and that
  can be removed.\<close>

theorem unsupported_voice_format_witness:
  "\<not> path_exists (files_after (send_voice_part py_lower unlink_ok net_ok (one_file ogg_path) bob
        ogg_path silk_tmp)) ogg_path \<and>
   \<not> path_exists (files_after (send_voice_part py_lower unlink_ok net_ok (one_file ogg_path) bob
        ogg_path silk_tmp)) silk_tmp \<and>
   sent_requests (send_voice_part py_lower unlink_ok net_ok (one_file ogg_path) bob ogg_path
        silk_tmp) =
     [SendTextMessage bob (voice_error_prefix @ unsupported_prefix @ ustr ''.ogg'') [[]]] \<and>
   fst (send_voice_part py_lower unlink_ok net_ok (one_file ogg_path) bob ogg_path silk_tmp) =
     None \<and>
   path_exists (one_file ogg_path) ogg_path \<and> bob \<noteq> []"
proof -
  have e: "py_lower (splitext_ext ogg_path) = ustr ''.ogg''"
    by (simp add: ogg_path_def splitext_ext_def py_lower_def ustr_def)
  have n: "ustr ''.ogg'' \<noteq> mp3_ext" "ustr ''.ogg'' \<noteq> wav_ext"
    by (simp_all add: mp3_ext_def wav_ext_def ustr_def)
  have x: "path_exists (one_file ogg_path) ogg_path"
    by (simp add: path_exists_def one_file_def ogg_path_def ustr_def)
  have b: "bob \<noteq> []"
    by (simp add: bob_def ustr_def)
  show ?thesis
    using unsupported_voice_format [OF b, where lower = py_lower and unlink = unlink_ok
        and net = net_ok and fs = "one_file ogg_path" and record_path = ogg_path
        and silk_path = silk_tmp] n x b
    by (simp add: e net_ok_def unlink_ok_def)
qed

section \<open>Properties of the stream transport\<close>

lemmas transport_defs = outer_loop_def cancel_def leave_connection_def inner_loop_def
  on_exception_def teardown_def start_polling_def

text \<open>
  C1 as stated fails: after a connection is open and the read loop waits, a frame that
  is not JSON closes the connection, cancels the heartbeat and puts the loop into the
  five-second backoff.
\<close>

theorem malformed_frame_counterexample:
  "phase (run quiet_handler [ConnectOk] (start_polling False)) = Reading \<and>
   open_connections (run quiet_handler [ConnectOk] (start_polling False)) = 1 \<and>
   phase (run quiet_handler [ConnectOk, Recv Malformed] (start_polling False)) = Backoff \<and>
   open_connections (run quiet_handler [ConnectOk, Recv Malformed] (start_polling False)) = 0 \<and>
   keepalive_task (run quiet_handler [ConnectOk, Recv Malformed] (start_polling False)) = Cancelled"
  by (simp add: transport_defs)

text \<open>
  C1, amended. A malformed frame received while the read loop waits is not caught by
  the loop: the connection is left (heartbeat cancelled, connection closed), the failure
  is logged as a connection error and, when shutdown has not been requested, the loop
  enters the five-second backoff, after which it attempts to reconnect; when shutdown
  has been requested it stops.
\<close>

theorem malformed_frame_teardown:
  assumes "phase s = Reading"
  shows "step h (Recv Malformed) s =
           s\<lparr>keepalive_task := cancel (keepalive_task s),
             open_connections := open_connections s - 1,
             trace := trace s @ [ErrorConnection JSONDecodeError],
             phase := (if shutdown_event s then Stopped else Backoff)\<rparr> \<and>
         (\<not> shutdown_event s \<longrightarrow>
            phase (step h SleepDone (step h (Recv Malformed) s)) = Connecting)"
  using assms by (simp add: transport_defs)

text \<open>The theorem in the state reached by a first successful connect.\<close>

theorem malformed_frame_teardown_witness:
  "step quiet_handler (Recv Malformed) (run quiet_handler [ConnectOk] (start_polling False)) =
     \<lparr>shutdown_event = False, phase = Backoff, keepalive_task = Cancelled,
      open_connections = 0, trace = [DebugConnected, ErrorConnection JSONDecodeError]\<rparr> \<and>
   phase (step quiet_handler SleepDone
            (step quiet_handler (Recv Malformed)
               (run quiet_handler [ConnectOk] (start_polling False)))) = Connecting"
proof -
  have s: "run quiet_handler [ConnectOk] (start_polling False) =
      \<lparr>shutdown_event = False, phase = Reading, keepalive_task = Sleeping,
       open_connections = 1, trace = [DebugConnected]\<rparr>"
    by (simp add: transport_defs)
  show ?thesis
    unfolding s
    using malformed_frame_teardown [of "\<lparr>shutdown_event = False, phase = Reading,
        keepalive_task = Sleeping, open_connections = 1, trace = [DebugConnected]\<rparr>"
        quiet_handler]
    by (simp add: transport_defs)
qed

text \<open>
  C2 as stated fails: after a failed probe the heartbeat task has ended, but the
  connection is still open and the read loop still waits, also after its next receive
  timeout.
\<close>

theorem heartbeat_failure_counterexample:
  "phase (run quiet_handler [ConnectOk, PingFail probe_error] (start_polling False)) = Reading \<and>
   open_connections (run quiet_handler [ConnectOk, PingFail probe_error] (start_polling False)) = 1 \<and>
   keepalive_task (run quiet_handler [ConnectOk, PingFail probe_error] (start_polling False)) =
     Finished \<and>
   phase (run quiet_handler [ConnectOk, PingFail probe_error, RecvTimeout] (start_polling False)) =
     Reading"
  by (simp add: transport_defs)

text \<open>
  C2, amended. A failed probe logs a warning and ends the heartbeat task only: the
  connection stays open and the read loop keeps waiting. The connection is torn down
  when the read loop itself raises an error other than a receive timeout; then, when
  shutdown has not been requested, the five-second backoff follows and after it a
  reconnect is attempted.
\<close>

theorem heartbeat_failure_ends_heartbeat_only:
  assumes "phase s = Reading" and "keepalive_task s = Sleeping"
  shows "step h (PingFail e) s =
           s\<lparr>trace := trace s @ [WarnHeartbeat e], keepalive_task := Finished\<rparr> \<and>
         step h (RecvFail e') (step h (PingFail e) s) =
           s\<lparr>trace := trace s @ [WarnHeartbeat e, ErrorConnection e'],
             keepalive_task := Finished,
             open_connections := open_connections s - 1,
             phase := (if shutdown_event s then Stopped else Backoff)\<rparr> \<and>
         (\<not> shutdown_event s \<longrightarrow>
            phase (step h SleepDone (step h (RecvFail e') (step h (PingFail e) s))) = Connecting)"
  using assms by (simp add: transport_defs)

text \<open>The theorem in the state reached by a first successful connect.\<close>

theorem heartbeat_failure_ends_heartbeat_only_witness:
  "step quiet_handler (PingFail probe_error) (run quiet_handler [ConnectOk] (start_polling False)) =
     \<lparr>shutdown_event = False, phase = Reading, keepalive_task = Finished,
      open_connections = 1, trace = [DebugConnected, WarnHeartbeat probe_error]\<rparr> \<and>
   phase (step quiet_handler SleepDone
            (step quiet_handler (RecvFail probe_error)
               (step quiet_handler (PingFail probe_error)
                  (run quiet_handler [ConnectOk] (start_polling False))))) = Connecting"
proof -
  have s: "run quiet_handler [ConnectOk] (start_polling False) =
      \<lparr>shutdown_event = False, phase = Reading, keepalive_task = Sleeping,
       open_connections = 1, trace = [DebugConnected]\<rparr>"
    by (simp add: transport_defs)
  show ?thesis
    unfolding s
    using heartbeat_failure_ends_heartbeat_only [of "\<lparr>shutdown_event = False, phase = Reading,
        keepalive_task = Sleeping, open_connections = 1, trace = [DebugConnected]\<rparr>"
        quiet_handler probe_error probe_error]
    by (simp add: transport_defs)
qed

lemma conn_inv_start: "conn_inv (start_polling sd)"
  by (simp add: conn_inv_def transport_defs)

lemma conn_inv_step: "conn_inv s \<Longrightarrow> conn_inv (step h e s)"
proof (cases e)
  case (Recv f)
  assume "conn_inv s"
  then show ?thesis using Recv
    by (cases f) (auto simp add: conn_inv_def transport_defs Let_def split: option.splits)
qed (auto simp add: conn_inv_def transport_defs Let_def)

lemma conn_inv_run: "conn_inv s \<Longrightarrow> conn_inv (run h es s)"
  by (induction es arbitrary: s) (simp_all add: conn_inv_step)

lemma terminated_twice: "terminated (terminated a) = terminated a"
  by (simp add: terminated_def terminate_def)

lemma terminated_funpow: "(terminated ^^ Suc n) a = terminated a"
proof (induction n)
  case 0
  show ?case by simp
next
  case (Suc n)
  have "(terminated ^^ Suc (Suc n)) a = terminated ((terminated ^^ Suc n) a)" by simp
  also have "\<dots> = terminated (terminated a)" using Suc by simp
  finally show ?case by (simp add: terminated_twice)
qed

text \<open>
  C9. Calling \<open>terminate\<close> any number of times, at least once, leaves the adapter in the
  state one call leaves it in: the shutdown flag of the client is set (the effect of the
  event \<open>SetShutdown\<close> on the transport), \<open>ws\<close> is \<open>None\<close>, and a further call only logs
  its closing line. And whatever the events and the handler, the reconnect loop never
  has more than one connection open.
\<close>

theorem shutdown_idempotent_single_connection:
  "(terminated ^^ Suc n) a = terminated a \<and>
   shutdown_event (client (terminated a)) \<and>
   ws (terminated a) = None \<and>
   client (terminated a) = step h SetShutdown (client a) \<and>
   snd (terminate (terminated a)) = [InfoTerminated] \<and>
   open_connections (run h es (start_polling sd)) \<le> 1"
proof -
  have "conn_inv (run h es (start_polling sd))"
    by (simp add: conn_inv_run conn_inv_start)
  then have "open_connections (run h es (start_polling sd)) \<le> 1"
    by (simp add: conn_inv_def)
  then show ?thesis
    using terminated_funpow [of n a]
    by (simp add: terminated_def terminate_def)
qed

end
